theory Spec2Isabelle
  imports Complex_Main
begin

section \<open>Numbers and constants\<close>

text \<open>
  The program computes with IEEE doubles (numpy arrays and Python floats).  They are
  modelled by the reals: rounding error and the non-finite values are not represented.
  Where the program uses NaN as a marker (the result of a failed fit, a flagged sample)
  the marker is a constructor of its own.  \<open>cte.c\<close> is \<open>scipy.constants.c\<close>, the speed of
  light in m/s.
\<close>

definition cte_c :: real where
  "cte_c = 299792458"

section \<open>fitline: parameters and optimizer bounds\<close>

text \<open>An optimizer bound is a float or one of \<open>-inf\<close>, \<open>inf\<close>.\<close>

datatype bound = NegInf | Fin real | PosInf

text \<open>\<open>tol_aa = tol*(line)*1000/cte.c\<close>: km/s to angstroms.\<close>

definition tol_aa_of :: "real \<Rightarrow> real \<Rightarrow> real" where
  "tol_aa_of tol line = tol * line * 1000 / cte_c"

text \<open>\<open>FWHM_max = 20\<close>.\<close>

definition FWHM_max :: real where
  "FWHM_max = 20"

text \<open>
  \<open>sigma,sig_min,sig_max = [0.8,dlamb/2/np.sqrt(2*np.log(2)),4]\<close>; only \<open>sig_min\<close> and
  \<open>sig_max\<close> reach the optimizer.
\<close>

definition sig_min_of :: "real \<Rightarrow> real" where
  "sig_min_of dlamb = dlamb / 2 / sqrt (2 * ln 2)"

definition sig_max :: real where
  "sig_max = 4"

text \<open>
  The \<open>if func == ... elif ...\<close> chain that sets \<open>bounds\<close>.  A tag that is none of the
  eight leaves \<open>bounds\<close> (and \<open>fitfunc\<close>) unbound: \<open>None\<close>.
\<close>

definition profile_bounds :: "string \<Rightarrow> real \<Rightarrow> real \<Rightarrow> real \<Rightarrow> (bound list \<times> bound list) option" where
  "profile_bounds func line tol_aa sig_min =
    (if func = ''g'' then
       Some ([NegInf, Fin (line - tol_aa), Fin sig_min],
             [Fin 0, Fin (line + tol_aa), Fin sig_max])
     else if func = ''l'' then
       Some ([NegInf, Fin (line - tol_aa), NegInf, Fin 1],
             [Fin 0, Fin (line + tol_aa), PosInf, Fin (101 / 100)])
     else if func = ''v'' then
       Some ([Fin (- (1 / 2)), Fin (line - tol_aa), Fin 0, Fin 0, Fin 1],
             [Fin 0, Fin (line + tol_aa), Fin 2, Fin (1 / 2), Fin (101 / 100)])
     else if func = ''r'' then
       Some ([Fin 0, Fin (line - tol_aa), Fin 0, Fin 1],
             [Fin (3 / 10), Fin (line + tol_aa), Fin (5 / 2), Fin 410])
     else if func = ''vr_H'' then
       Some ([Fin (- (1 / 2)), Fin (line - tol_aa), Fin 0, Fin 0, Fin 1, Fin 0],
             [Fin 0, Fin (line + tol_aa), Fin (3 / 2), Fin (3 / 2), Fin 410, Fin (1 / 100)])
     else if func = ''vr_Z'' then
       Some ([Fin (- (1 / 10)), Fin (line - tol_aa), Fin 0, Fin 0, Fin 1, Fin 0],
             [Fin 0, Fin (line + tol_aa), Fin (3 / 2), Fin 1, Fin 410, Fin (1 / 100)])
     else if func = ''vrg_H'' then
       Some ([Fin (- (4 / 10)), Fin (line - tol_aa), Fin 0, Fin 0, Fin 1, Fin (- (7 / 100)), Fin 0, Fin 0],
             [Fin 0, Fin (line + tol_aa), Fin 10, Fin 10, Fin 410, Fin 0, Fin 4, Fin (1 / 100)])
     else if func = ''vrg_Z'' then
       Some ([Fin (- (1 / 10)), Fin (line - tol_aa), Fin 0, Fin 0, Fin 1, Fin (- (13 / 10)), Fin 0, Fin (- (1 / 100))],
             [Fin 0, Fin (line + tol_aa), Fin (3 / 2), Fin 1, Fin 410, Fin 0, Fin 2, Fin (1 / 100)])
     else None)"

text \<open>The profile tags of the docstring and of the \<open>elif\<close> chain.\<close>

definition profile_tags :: "string list" where
  "profile_tags = [''g'', ''l'', ''v'', ''r'', ''vr_H'', ''vr_Z'', ''vrg_H'', ''vrg_Z'']"

section \<open>Properties\<close>

text \<open>
  C4.  For each of the eight profile tags the bounds handed to the optimizer exist, and
  their entry for the centre wavelength \<open>x0\<close> (position 1 of both lists) is
  \<open>line - tol_aa\<close> below and \<open>line + tol_aa\<close> above, where
  \<open>tol_aa = tol * line * 1000 / c\<close>.
\<close>

theorem C4_center_bounds:
  assumes "func \<in> set profile_tags"
  shows "\<exists>lo hi. profile_bounds func line (tol_aa_of tol line) sig_min = Some (lo, hi)
           \<and> lo ! 1 = Fin (line - tol * line * 1000 / cte_c)
           \<and> hi ! 1 = Fin (line + tol * line * 1000 / cte_c)"
  using assms by (auto simp: profile_tags_def profile_bounds_def tol_aa_of_def)

theorem C4_center_bounds_witness:
  "''vr_H'' \<in> set profile_tags
   \<and> (\<exists>lo hi. profile_bounds ''vr_H'' 5000 (tol_aa_of 150 5000) (1 / 100) = Some (lo, hi)
           \<and> lo ! 1 = Fin (5000 - 150 * 5000 * 1000 / cte_c)
           \<and> hi ! 1 = Fin (5000 + 150 * 5000 * 1000 / cte_c))"
proof -
  have h: "''vr_H'' \<in> set profile_tags" by (simp add: profile_tags_def)
  show ?thesis using h C4_center_bounds [OF h, of 5000 150 "1 / 100"] by simp
qed

end
